theory Spec2Isabelle
  imports Complex_Main
begin

section \<open>Data model\<close>

text \<open>
  The two programs (\<^verbatim>\<open>video_audio_sync_pro.py\<close> and \<^verbatim>\<open>video_audio_sync_app_v2.py\<close>)
  share the estimator and the offset applier verbatim; they differ in how the FFmpeg command
  of the export is built. Audio samples are NumPy floats in the source; here they are
  real numbers, so every statement below is about exact arithmetic. Python integers are
  \<open>int\<close>, Python strings are \<open>string\<close>.
\<close>

record SyncResult =
  offset_seconds :: real
  confidence :: real
  correlation_peak :: real
  sample_rate :: int
  sync_method :: string

text \<open>
  The exceptions of the source, each with the text \<^verbatim>\<open>str(e)\<close> gives: the
  \<^verbatim>\<open>ValueError\<close> NumPy raises, and the plain \<^verbatim>\<open>Exception\<close> the workers raise.
\<close>

datatype error = ValueError string | Exception string

fun str_error :: "error \<Rightarrow> string" where
  "str_error (ValueError msg) = msg"
| "str_error (Exception msg) = msg"

section \<open>Offset estimator: \<^verbatim>\<open>AudioSyncWorker.cross_correlation_sync\<close>\<close>

text \<open>\<^verbatim>\<open>1e-8\<close>, the constant added to every denominator.\<close>

definition eps :: real where
  "eps = 1 / 10 ^ 8"

text \<open>\<^verbatim>\<open>np.max(np.abs(a))\<close>; NumPy raises \<^verbatim>\<open>ValueError\<close> on an empty array.\<close>

definition np_max_abs :: "real list \<Rightarrow> error + real" where
  "np_max_abs a =
     (if a = []
      then Inl (ValueError ''zero-size array to reduction operation maximum which has no identity'')
      else Inr (Max (set (map abs a))))"

text \<open>\<^verbatim>\<open>a / (np.max(np.abs(a)) + 1e-8)\<close>.\<close>

definition peak_normalize :: "real list \<Rightarrow> error + real list" where
  "peak_normalize a =
     (case np_max_abs a of
        Inl e \<Rightarrow> Inl e
      | Inr m \<Rightarrow> Inr (map (\<lambda>x. x / (m + eps)) a))"

text \<open>
  The Python slice \<^verbatim>\<open>a[:k]\<close>: a negative stop counts from the end, and a stop
  before the start gives the empty array.
\<close>

definition slice_to :: "'a list \<Rightarrow> int \<Rightarrow> 'a list" where
  "slice_to a k = (if 0 \<le> k then take (nat k) a else take (nat (int (length a) + k)) a)"

text \<open>The Python slice \<^verbatim>\<open>a[k:]\<close>, with the same reading of a negative start.\<close>

definition slice_from :: "'a list \<Rightarrow> int \<Rightarrow> 'a list" where
  "slice_from a k = (if 0 \<le> k then drop (nat k) a else drop (nat (int (length a) + k)) a)"

text \<open>
  The choice of template and search signal (the \<^verbatim>\<open>if len(vid_audio) < len(ext_audio)\<close>
  statement): the result is \<open>(template, search_signal, reverse)\<close>.
\<close>

definition select_signals ::
  "int \<Rightarrow> real list \<Rightarrow> int \<Rightarrow> real list \<Rightarrow> int \<Rightarrow> real list \<times> real list \<times> bool" where
  "select_signals max_offset_samples vid_audio vid_sr ext_audio ext_sr =
     (if length vid_audio < length ext_audio then
        (let template = slice_to vid_audio (min (int (length vid_audio)) (30 * vid_sr));
             search_signal = slice_to ext_audio
               (min (int (length ext_audio)) (int (length template) + max_offset_samples))
         in (template, search_signal, False))
      else
        (let template = slice_to ext_audio (min (int (length ext_audio)) (30 * ext_sr));
             search_signal = slice_to vid_audio
               (min (int (length vid_audio)) (int (length template) + max_offset_samples))
         in (template, search_signal, True)))"

text \<open>
  \<^verbatim>\<open>scipy.signal.correlate(search_signal, template, mode='valid')\<close> on one-dimensional
  real arrays: entry \<open>lag\<close> is the dot product of the template with the window of the
  search signal that starts at \<open>lag\<close>. When the first argument is the shorter one SciPy
  swaps the two and reverses the result.
\<close>

definition window_dot :: "real list \<Rightarrow> real list \<Rightarrow> nat \<Rightarrow> real" where
  "window_dot s t lag = sum_list (map2 (*) (take (length t) (drop lag s)) t)"

definition correlate_valid :: "real list \<Rightarrow> real list \<Rightarrow> real list" where
  "correlate_valid s t =
     (if length t \<le> length s
      then map (window_dot s t) [0 ..< length s - length t + 1]
      else rev (map (window_dot t s) [0 ..< length t - length s + 1]))"

text \<open>\<^verbatim>\<open>np.argmax\<close>: the first index that holds the maximum.\<close>

definition np_argmax :: "real list \<Rightarrow> nat" where
  "np_argmax c = length (takeWhile (\<lambda>x. x \<noteq> Max (set c)) c)"

text \<open>\<^verbatim>\<open>np.sum(a**2)\<close>.\<close>

definition sum_sq :: "real list \<Rightarrow> real" where
  "sum_sq a = sum_list (map (\<lambda>x. x * x) a)"

text \<open>
  The estimator. \<open>max_offset\<close> is the worker's field (an integer number of seconds), the
  two other arguments are the pairs \<open>(samples, sample rate)\<close>. The two failures of the
  source are the \<^verbatim>\<open>ValueError\<close> of \<^verbatim>\<open>np.max\<close> on an empty buffer, and the
  \<^verbatim>\<open>ValueError\<close> that an empty template or search signal ends in (SciPy refuses an
  empty operand, or returns an empty correlation on which \<^verbatim>\<open>np.argmax\<close> raises).
  Sample rates are positive in every caller (22050 from the decoder); a zero rate makes
  NumPy divide by zero, which the reals do not model, so theorems about
  \<open>offset_seconds\<close> assume positive rates.
\<close>

definition cross_correlation_sync ::
  "int \<Rightarrow> real list \<times> int \<Rightarrow> real list \<times> int \<Rightarrow> error + SyncResult" where
  "cross_correlation_sync max_offset video_audio external_audio =
     (case video_audio of (vid_audio0, vid_sr) \<Rightarrow>
      case external_audio of (ext_audio0, ext_sr) \<Rightarrow>
      case peak_normalize vid_audio0 of Inl e \<Rightarrow> Inl e | Inr vid_audio \<Rightarrow>
      case peak_normalize ext_audio0 of Inl e \<Rightarrow> Inl e | Inr ext_audio \<Rightarrow>
      let max_offset_samples = max_offset * vid_sr in
      case select_signals max_offset_samples vid_audio vid_sr ext_audio ext_sr of
        (template, search_signal, reverse) \<Rightarrow>
      if template = [] \<or> search_signal = []
      then Inl (ValueError ''attempt to get argmax of an empty sequence'')
      else
        let correlation = correlate_valid search_signal template;
            peak_index = np_argmax correlation;
            peak_value = correlation ! peak_index;
            conf = peak_value / (sqrt (sum_sq template * sum_sq search_signal) + eps);
            offset = (if reverse then real peak_index / real_of_int vid_sr
                      else - real peak_index / real_of_int ext_sr)
        in Inr \<lparr> offset_seconds = offset,
                 confidence = min conf 1,
                 correlation_peak = peak_value,
                 sample_rate = vid_sr,
                 sync_method = ''cross_correlation'' \<rparr>)"

text \<open>
  The intermediate values of a run, for stating properties of the peak: the correlation
  the estimator computes and the lag it picks.
\<close>

definition sync_signals ::
  "int \<Rightarrow> real list \<times> int \<Rightarrow> real list \<times> int \<Rightarrow> real list \<times> real list \<times> bool" where
  "sync_signals max_offset video_audio external_audio =
     (case video_audio of (vid_audio0, vid_sr) \<Rightarrow>
      case external_audio of (ext_audio0, ext_sr) \<Rightarrow>
      select_signals (max_offset * vid_sr)
        (map (\<lambda>x. x / (Max (set (map abs vid_audio0)) + eps)) vid_audio0) vid_sr
        (map (\<lambda>x. x / (Max (set (map abs ext_audio0)) + eps)) ext_audio0) ext_sr)"

definition sync_peak_index :: "int \<Rightarrow> real list \<times> int \<Rightarrow> real list \<times> int \<Rightarrow> nat" where
  "sync_peak_index max_offset video_audio external_audio =
     (case sync_signals max_offset video_audio external_audio of
        (template, search_signal, reverse) \<Rightarrow> np_argmax (correlate_valid search_signal template))"

section \<open>Offset applier: \<^verbatim>\<open>VideoProcessWorker.apply_offset_to_audio\<close>\<close>

text \<open>\<^verbatim>\<open>int(x)\<close> on a float: truncation towards zero.\<close>

definition py_int :: "real \<Rightarrow> int" where
  "py_int x = (if 0 \<le> x then \<lfloor>x\<rfloor> else \<lceil>x\<rceil>)"

text \<open>
  The arithmetic of the applier, between the decoding of the file and the writing of the
  result: \<open>audio\<close> and \<open>sr\<close> are what \<^verbatim>\<open>librosa.load\<close> returned.
  \<^verbatim>\<open>np.zeros\<close> raises \<^verbatim>\<open>ValueError\<close> on a negative count.
\<close>

definition shift_audio :: "real list \<Rightarrow> int \<Rightarrow> real \<Rightarrow> error + real list" where
  "shift_audio audio sr offset =
     (if offset > 0 then
        (let silence_samples = py_int (offset * real_of_int sr)
         in if silence_samples < 0
            then Inl (ValueError ''negative dimensions are not allowed'')
            else Inr (replicate (nat silence_samples) 0 @ audio))
      else if offset < 0 then
        (let trim_samples = py_int (\<bar>offset\<bar> * real_of_int sr)
         in Inr (slice_from audio trim_samples))
      else Inr audio)"

section \<open>Export planner\<close>

record ExportSettings =
  format :: string
  video_codec :: string
  audio_codec :: string
  resolution :: string
  video_bitrate :: string
  audio_bitrate :: string
  preset :: string
  crf :: int

text \<open>The defaults of the \<^verbatim>\<open>ExportSettings\<close> dataclass.\<close>

definition default_settings :: ExportSettings where
  "default_settings =
     \<lparr> format = ''mp4'', video_codec = ''libx264'', audio_codec = ''aac'',
       resolution = ''original'', video_bitrate = ''8M'', audio_bitrate = ''192k'',
       preset = ''medium'', crf = 23 \<rparr>"

text \<open>
  The fields of \<^verbatim>\<open>VideoProcessWorker\<close>; the professional edition adds the export
  settings.
\<close>

record VideoProcessWorker =
  video_path :: string
  audio_path :: string
  output_path :: string
  offset :: real
  mute_original :: bool

record VideoProcessWorker_pro = VideoProcessWorker +
  export_settings :: ExportSettings

text \<open>\<^verbatim>\<open>str(n)\<close> for an integer, and \<^verbatim>\<open>sep.join(xs)\<close>.\<close>

fun str_nat :: "nat \<Rightarrow> string" where
  "str_nat n =
     (if n < 10 then [''0123456789'' ! n]
      else str_nat (n div 10) @ [''0123456789'' ! (n mod 10)])"

definition str_int :: "int \<Rightarrow> string" where
  "str_int i = (if i < 0 then ''-'' @ str_nat (nat (- i)) else str_nat (nat i))"

fun join :: "string \<Rightarrow> string list \<Rightarrow> string" where
  "join sep [] = []"
| "join sep [x] = x"
| "join sep (x # y # ys) = x @ sep @ join sep (y # ys)"

definition audio_filter :: string where
  "audio_filter =
     ''[0:a]volume=0.3[original];[1:a]volume=1.0[new];[original][new]amix=inputs=2:duration=shortest''"

text \<open>\<^verbatim>\<open>VideoProcessWorker.build_ffmpeg_command\<close> of the professional edition.\<close>

definition build_ffmpeg_command :: "VideoProcessWorker_pro \<Rightarrow> string \<Rightarrow> string list" where
  "build_ffmpeg_command w temp_audio_path =
     (let s = export_settings w;
          cmd = [''ffmpeg'', ''-i'', video_path w, ''-i'', temp_audio_path];
          video_filters =
            (if resolution s \<noteq> ''original'' then [''scale='' @ resolution s] else []);
          cmd =
            (if mute_original w then
               (if video_filters \<noteq> [] then cmd @ [''-vf'', join '','' video_filters]
                else cmd @ [''-c:v'', video_codec s])
               @ [''-c:a'', audio_codec s,
                  ''-b:v'', video_bitrate s,
                  ''-b:a'', audio_bitrate s,
                  ''-crf'', str_int (crf s),
                  ''-preset'', preset s,
                  ''-map'', ''0:v:0'',
                  ''-map'', ''1:a:0'',
                  ''-shortest'']
             else
               (if video_filters \<noteq> [] then cmd @ [''-vf'', join '','' video_filters]
                else cmd)
               @ [''-filter_complex'', audio_filter,
                  ''-c:v'', video_codec s,
                  ''-c:a'', audio_codec s,
                  ''-b:v'', video_bitrate s,
                  ''-b:a'', audio_bitrate s,
                  ''-crf'', str_int (crf s),
                  ''-preset'', preset s,
                  ''-map'', ''0:v:0''])
      in cmd @ [''-y'', output_path w])"

text \<open>
  The command that \<^verbatim>\<open>VideoProcessWorker.run\<close> of the Windows edition
  (\<^verbatim>\<open>video_audio_sync_app_v2.py\<close>) builds in place; it has no export settings.
\<close>

definition build_command_v2 :: "VideoProcessWorker \<Rightarrow> string \<Rightarrow> string list" where
  "build_command_v2 w temp_audio_path =
     (if mute_original w then
        [''ffmpeg'',
         ''-i'', video_path w,
         ''-i'', temp_audio_path,
         ''-c:v'', ''copy'',
         ''-c:a'', ''aac'',
         ''-b:a'', ''192k'',
         ''-map'', ''0:v:0'',
         ''-map'', ''1:a:0'',
         ''-shortest'',
         ''-y'',
         output_path w]
      else
        [''ffmpeg'',
         ''-i'', video_path w,
         ''-i'', temp_audio_path,
         ''-filter_complex'', audio_filter,
         ''-c:v'', ''copy'',
         ''-c:a'', ''aac'',
         ''-b:a'', ''192k'',
         ''-map'', ''0:v:0'',
         ''-y'',
         output_path w])"

text \<open>
  Reading a command: an option \<open>k\<close> is given the value \<open>v\<close> when the two are adjacent
  arguments. A stream copy of the video is \<^verbatim>\<open>-c:v copy\<close>; a scale filter is a
  \<^verbatim>\<open>-vf\<close> whose value starts with \<^verbatim>\<open>scale=\<close>.
\<close>

definition has_option :: "string \<Rightarrow> string \<Rightarrow> string list \<Rightarrow> bool" where
  "has_option k v cmd = ((k, v) \<in> set (zip cmd (tl cmd)))"

definition startswith :: "string \<Rightarrow> string \<Rightarrow> bool" where
  "startswith s p = (take (length p) s = p)"

definition has_scale_filter :: "string list \<Rightarrow> bool" where
  "has_scale_filter cmd =
     list_ex (\<lambda>(k, v). k = ''-vf'' \<and> startswith v ''scale='') (zip cmd (tl cmd))"

definition video_stream_copy :: "string list \<Rightarrow> bool" where
  "video_stream_copy cmd = has_option ''-c:v'' ''copy'' cmd"

section \<open>Export flow: \<^verbatim>\<open>VideoProcessWorker.run\<close>\<close>

text \<open>
  What the flow meets outside the program, one field for each call that leaves it:
  \<^item> \<open>tempfile_result\<close>: \<^verbatim>\<open>tempfile.NamedTemporaryFile(suffix='.wav', delete=False)\<close>,
    the text of the exception or the path of the scratch file it created;
  \<^item> \<open>load_result\<close>: \<^verbatim>\<open>librosa.load(audio_path, sr=22050, mono=True)\<close>, the text of the
    exception or the samples and their rate;
  \<^item> \<open>write_error\<close>: the text of the exception of \<^verbatim>\<open>sf.write\<close>, if it raises;
  \<^item> \<open>popen_error\<close>: the text of the exception of \<^verbatim>\<open>subprocess.Popen\<close>, if it raises
    (the tool is not installed);
  \<^item> \<open>stderr_text\<close>: everything the tool writes to its error stream before it closes it;
  \<^item> \<open>eof_polls\<close>: how many times \<^verbatim>\<open>poll()\<close> still answers \<^verbatim>\<open>None\<close> after the
    stream has ended;
  \<^item> \<open>return_code\<close>: the exit code of the tool;
  \<^item> \<open>unlink_ok\<close>: whether \<^verbatim>\<open>os.unlink\<close> of the scratch file succeeds.
\<close>

record environment =
  tempfile_result :: "string + string"
  load_result :: "string + real list \<times> int"
  write_error :: "string option"
  popen_error :: "string option"
  stderr_text :: string
  eof_polls :: nat
  return_code :: int
  unlink_ok :: bool

text \<open>The signals a worker emits, in order.\<close>

datatype signal = Progress int string | Finished string | Error string

record flow_result =
  emitted :: "signal list"
  scratch_exists :: bool

text \<open>
  \<^verbatim>\<open>apply_offset_to_audio\<close>: decode, shift, write; every exception is raised again as
  \<^verbatim>\<open>Exception("Failed to apply offset: ...")\<close>. The result is the content written to
  the scratch file.
\<close>

definition apply_offset_to_audio :: "environment \<Rightarrow> real \<Rightarrow> error + real list" where
  "apply_offset_to_audio env off =
     (case load_result env of
        Inl msg \<Rightarrow> Inl (Exception (''Failed to apply offset: '' @ msg))
      | Inr (audio, sr) \<Rightarrow>
          (case shift_audio audio sr off of
             Inl e \<Rightarrow> Inl (Exception (''Failed to apply offset: '' @ str_error e))
           | Inr shifted \<Rightarrow>
               (case write_error env of
                  Some msg \<Rightarrow> Inl (Exception (''Failed to apply offset: '' @ msg))
                | None \<Rightarrow> Inr shifted)))"

text \<open>
  \<^verbatim>\<open>readline()\<close> on a text stream: the next line with its newline, or what is left
  when no newline follows, which is the empty string only at the end of the stream.
  The result is the line and the rest of the stream.
\<close>

definition readline :: "string \<Rightarrow> string \<times> string" where
  "readline s =
     (case dropWhile (\<lambda>c. c \<noteq> CHR 0x0A) s of
        [] \<Rightarrow> (s, [])
      | nl # rest \<Rightarrow> (takeWhile (\<lambda>c. c \<noteq> CHR 0x0A) s @ [nl], rest))"

text \<open>
  The monitoring loop \<^verbatim>\<open>while True: output = process.stderr.readline() ...\<close>. Its state
  is the unread part of the stream, the number of \<^verbatim>\<open>None\<close> answers \<^verbatim>\<open>poll()\<close> has
  left, and the number of progress signals emitted so far; it returns the unread part of
  the stream and that number.
\<close>

function monitor_loop :: "string \<Rightarrow> nat \<Rightarrow> nat \<Rightarrow> string \<times> nat" where
  "monitor_loop stream polls n =
     (if fst (readline stream) = [] then
        (if polls = 0 then (snd (readline stream), n)
         else monitor_loop (snd (readline stream)) (polls - 1) n)
      else monitor_loop (snd (readline stream)) polls (Suc n))"
  by pat_completeness auto
termination
proof (relation "measure (\<lambda>(stream, polls, n). length stream + polls)")
  show "wf (measure (\<lambda>(stream, polls, n). length stream + polls))" by simp
next
  fix stream :: string and polls n :: nat
  assume polls: "polls \<noteq> 0"
  have "length (snd (readline stream)) \<le> length stream"
  proof (cases "dropWhile (\<lambda>c. c \<noteq> CHR 0x0A) stream")
    case Nil
    show ?thesis unfolding readline_def Nil by simp
  next
    case (Cons nl rest)
    have "length (dropWhile (\<lambda>c. c \<noteq> CHR 0x0A) stream) \<le> length stream"
      by (rule length_dropWhile_le)
    then have "length rest < length stream" unfolding Cons by simp
    then show ?thesis unfolding readline_def Cons by simp
  qed
  with polls show "((snd (readline stream), polls - 1, n), stream, polls, n)
        \<in> measure (\<lambda>(stream, polls, n). length stream + polls)"
    by simp
next
  fix stream :: string and polls n :: nat
  assume line: "fst (readline stream) \<noteq> []"
  have "length (snd (readline stream)) < length stream"
  proof (cases "dropWhile (\<lambda>c. c \<noteq> CHR 0x0A) stream")
    case Nil
    from line show ?thesis unfolding readline_def Nil by simp
  next
    case (Cons nl rest)
    have "length (dropWhile (\<lambda>c. c \<noteq> CHR 0x0A) stream) \<le> length stream"
      by (rule length_dropWhile_le)
    then have "length rest < length stream" unfolding Cons by simp
    then show ?thesis unfolding readline_def Cons by simp
  qed
  then show "((snd (readline stream), polls, Suc n), stream, polls, n)
        \<in> measure (\<lambda>(stream, polls, n). length stream + polls)"
    by simp
qed

text \<open>
  \<^verbatim>\<open>run\<close>, with what the two editions differ in as parameters: the percentage and
  label of the third progress signal, the percentage of the signal of the monitoring loop,
  and the command.
\<close>

definition export_flow ::
  "int \<Rightarrow> string \<Rightarrow> int \<Rightarrow> (string \<Rightarrow> string list) \<Rightarrow> environment \<Rightarrow> real \<Rightarrow> string
     \<Rightarrow> flow_result" where
  "export_flow pct3 label3 pct4 command env off out =
     (let ev1 = [Progress 10 ''Preparing files...''] in
      case tempfile_result env of
        Inl msg \<Rightarrow> \<lparr> emitted = ev1 @ [Error msg], scratch_exists = False \<rparr>
      | Inr temp_audio_path \<Rightarrow>
          (let ev2 = ev1 @ [Progress 30 ''Applying audio offset...''] in
           case apply_offset_to_audio env off of
             Inl e \<Rightarrow> \<lparr> emitted = ev2 @ [Error (str_error e)], scratch_exists = True \<rparr>
           | Inr written \<Rightarrow>
               (let ev3 = ev2 @ [Progress pct3 label3];
                    cmd = command temp_audio_path in
                case popen_error env of
                  Some msg \<Rightarrow> \<lparr> emitted = ev3 @ [Error msg], scratch_exists = True \<rparr>
                | None \<Rightarrow>
                    (case monitor_loop (stderr_text env) (eof_polls env) 0 of
                       (unread, n) \<Rightarrow>
                         (let ev4 = ev3 @ replicate n (Progress pct4 ''Encoding video...'');
                              return_code = return_code env;
                              still_there = (\<not> unlink_ok env)
                          in if return_code \<noteq> 0
                             then \<lparr> emitted = ev4 @ [Error (''FFmpeg encoding failed: '' @ unread)],
                                    scratch_exists = still_there \<rparr>
                             else \<lparr> emitted = ev4 @ [Progress 100 ''Export complete!'',
                                                      Finished out],
                                    scratch_exists = still_there \<rparr>)))))"

definition run :: "environment \<Rightarrow> VideoProcessWorker_pro \<Rightarrow> flow_result" where
  "run env w =
     export_flow 50 ''Encoding video (this may take a while)...'' 75
       (build_ffmpeg_command w) env (offset w) (output_path w)"

definition run_v2 :: "environment \<Rightarrow> VideoProcessWorker \<Rightarrow> flow_result" where
  "run_v2 env w =
     export_flow 60 ''Merging video and audio (this may take a while)...'' 80
       (build_command_v2 w) env (offset w) (output_path w)"




section \<open>Properties of the estimator\<close>

lemma sync_unfold:
  assumes "vid \<noteq> []" "ext \<noteq> []"
    and "sync_signals mo (vid, vsr) (ext, esr) = (t, s, rv)"
  shows "cross_correlation_sync mo (vid, vsr) (ext, esr) =
     (if t = [] \<or> s = [] then Inl (ValueError ''attempt to get argmax of an empty sequence'')
      else Inr \<lparr> offset_seconds =
                   (if rv then real (sync_peak_index mo (vid, vsr) (ext, esr)) / real_of_int vsr
                    else - real (sync_peak_index mo (vid, vsr) (ext, esr)) / real_of_int esr),
                 confidence = min (correlate_valid s t ! sync_peak_index mo (vid, vsr) (ext, esr)
                                   / (sqrt (sum_sq t * sum_sq s) + eps)) 1,
                 correlation_peak = correlate_valid s t ! sync_peak_index mo (vid, vsr) (ext, esr),
                 sample_rate = vsr,
                 sync_method = ''cross_correlation'' \<rparr>)"
  using assms
  by (simp add: cross_correlation_sync_def sync_signals_def sync_peak_index_def
      peak_normalize_def np_max_abs_def Let_def)

lemma sync_empty_error:
  "vid = [] \<or> ext = [] \<Longrightarrow>
   cross_correlation_sync mo (vid, vsr) (ext, esr) =
     Inl (ValueError ''zero-size array to reduction operation maximum which has no identity'')"
  by (auto simp: cross_correlation_sync_def peak_normalize_def np_max_abs_def)

lemma select_signals_shape:
  assumes "0 < vsr" "0 < esr" "0 \<le> mos" "vid \<noteq> []" "ext \<noteq> []"
    and "select_signals mos vid vsr ext esr = (t, s, rv)"
  shows "t \<noteq> [] \<and> length t \<le> length s"
  using assms
  by (auto simp: select_signals_def Let_def slice_to_def min_def split: if_splits)

lemma sync_signals_shape:
  assumes "0 < vsr" "0 < esr" "0 \<le> mo" "vid \<noteq> []" "ext \<noteq> []"
    and "sync_signals mo (vid, vsr) (ext, esr) = (t, s, rv)"
  shows "t \<noteq> [] \<and> length t \<le> length s"
proof -
  let ?v = "map (\<lambda>x. x / (Max (set (map abs vid)) + eps)) vid"
  let ?e = "map (\<lambda>x. x / (Max (set (map abs ext)) + eps)) ext"
  have m: "0 \<le> mo * vsr" using assms by simp
  have v: "?v \<noteq> []" and e: "?e \<noteq> []" using assms by simp_all
  have "select_signals (mo * vsr) ?v vsr ?e esr = (t, s, rv)"
    using assms(6) by (simp add: sync_signals_def)
  then show ?thesis
    by (rule select_signals_shape [OF assms(1,2) m v e])
qed

lemma sync_returns:
  assumes "0 < vsr" "0 < esr" "0 \<le> mo" "vid \<noteq> []" "ext \<noteq> []"
  shows "\<exists>r. cross_correlation_sync mo (vid, vsr) (ext, esr) = Inr r"
proof -
  obtain t s rv where sg: "sync_signals mo (vid, vsr) (ext, esr) = (t, s, rv)"
    by (metis prod_cases3)
  from sync_signals_shape [OF assms sg] have "t \<noteq> []" "s \<noteq> []" by auto
  then show ?thesis using sync_unfold [OF assms(4,5) sg] by simp
qed

lemma np_argmax_less: "c \<noteq> [] \<Longrightarrow> np_argmax c < length c"
proof -
  assume "c \<noteq> []"
  then have m: "Max (set c) \<in> set c" by (simp add: Max_in)
  let ?tw = "takeWhile (\<lambda>x. x \<noteq> Max (set c)) c"
  have "length ?tw \<noteq> length c"
  proof
    assume "length ?tw = length c"
    then have "?tw = c" using takeWhile_eq_take [of "\<lambda>x. x \<noteq> Max (set c)" c] by simp
    then have "\<forall>x\<in>set c. x \<noteq> Max (set c)" by (simp add: takeWhile_eq_all_conv)
    with m show False by blast
  qed
  moreover have "length ?tw \<le> length c" by (rule length_takeWhile_le)
  ultimately show ?thesis by (simp add: np_argmax_def)
qed

lemma np_argmax_max: "c \<noteq> [] \<Longrightarrow> c ! np_argmax c = Max (set c)"
  using np_argmax_less [of c] nth_length_takeWhile [of "\<lambda>x. x \<noteq> Max (set c)" c]
  by (simp add: np_argmax_def)

lemma np_argmax_first: "i < np_argmax c \<Longrightarrow> c ! i < Max (set c)"
proof -
  assume i: "i < np_argmax c"
  let ?P = "\<lambda>x. x \<noteq> Max (set c)"
  from i have il: "i < length (takeWhile ?P c)" by (simp add: np_argmax_def)
  then have "takeWhile ?P c ! i \<in> set (takeWhile ?P c)" by simp
  then have "?P (takeWhile ?P c ! i)" by (rule set_takeWhileD [THEN conjunct2])
  then have ne: "c ! i \<noteq> Max (set c)" using il by (simp add: takeWhile_nth)
  have "i < length c" using il length_takeWhile_le [of ?P c] by simp
  then have "c ! i \<le> Max (set c)" by simp
  with ne show ?thesis by simp
qed

lemma length_correlate_valid:
  "length t \<le> length s \<Longrightarrow> length (correlate_valid s t) = length s - length t + 1"
  by (simp add: correlate_valid_def)

lemma select_signals_equal:
  assumes "length vn = length en" "0 < esr" "0 \<le> mos"
  shows "select_signals mos vn vsr en esr =
     (take (nat (30 * esr)) en, take (length (take (nat (30 * esr)) en) + nat mos) vn, True)"
  using assms
  by (auto simp: select_signals_def Let_def slice_to_def min_def nat_add_distrib)

text \<open>
  The result of a run on buffers that are not empty, with the signals it was computed
  from.
\<close>

lemma peak_normalize_nonempty:
  "a \<noteq> [] \<Longrightarrow> peak_normalize a = Inr (map (\<lambda>x. x / (Max (set (map abs a)) + eps)) a)"
  by (simp add: peak_normalize_def np_max_abs_def)

lemma sync_result:
  assumes "vid \<noteq> []" "ext \<noteq> []" "0 < vsr" "0 < esr" "0 \<le> mo"
  shows "\<exists>vn en t s rv.
           peak_normalize vid = Inr vn \<and> peak_normalize ext = Inr en
         \<and> select_signals (mo * vsr) vn vsr en esr = (t, s, rv)
         \<and> t \<noteq> [] \<and> length t \<le> length s
         \<and> cross_correlation_sync mo (vid, vsr) (ext, esr) =
             Inr \<lparr> offset_seconds =
                     (if rv then real (np_argmax (correlate_valid s t)) / real_of_int vsr
                      else - real (np_argmax (correlate_valid s t)) / real_of_int esr),
                   confidence =
                     min (correlate_valid s t ! np_argmax (correlate_valid s t)
                          / (sqrt (sum_sq t * sum_sq s) + eps)) 1,
                   correlation_peak = correlate_valid s t ! np_argmax (correlate_valid s t),
                   sample_rate = vsr,
                   sync_method = ''cross_correlation'' \<rparr>"
proof -
  let ?vn = "map (\<lambda>x. x / (Max (set (map abs vid)) + eps)) vid"
  let ?en = "map (\<lambda>x. x / (Max (set (map abs ext)) + eps)) ext"
  obtain t s rv where sel: "select_signals (mo * vsr) ?vn vsr ?en esr = (t, s, rv)"
    by (metis prod_cases3)
  then have sg: "sync_signals mo (vid, vsr) (ext, esr) = (t, s, rv)"
    by (simp add: sync_signals_def)
  have sh: "t \<noteq> [] \<and> length t \<le> length s"
    by (rule sync_signals_shape [OF assms(3,4,5,1,2) sg])
  then have t: "t \<noteq> []" by (rule conjunct1)
  from sh have s: "s \<noteq> []" by (metis le_zero_eq length_0_conv)
  have pk: "sync_peak_index mo (vid, vsr) (ext, esr) = np_argmax (correlate_valid s t)"
    using sg by (simp add: sync_peak_index_def)
  have res: "cross_correlation_sync mo (vid, vsr) (ext, esr) =
             Inr \<lparr> offset_seconds =
                     (if rv then real (np_argmax (correlate_valid s t)) / real_of_int vsr
                      else - real (np_argmax (correlate_valid s t)) / real_of_int esr),
                   confidence =
                     min (correlate_valid s t ! np_argmax (correlate_valid s t)
                          / (sqrt (sum_sq t * sum_sq s) + eps)) 1,
                   correlation_peak = correlate_valid s t ! np_argmax (correlate_valid s t),
                   sample_rate = vsr,
                   sync_method = ''cross_correlation'' \<rparr>"
    using sync_unfold [OF assms(1,2) sg] t s pk by simp
  from peak_normalize_nonempty [OF assms(1)] peak_normalize_nonempty [OF assms(2)] sel sh res
  show ?thesis by blast
qed

text \<open>
  The Cauchy-Schwarz inequality for lists, and with it the bound on every entry of the
  correlation: its absolute value is at most the product of the norms of the template and
  of the search signal.
\<close>

lemma sum_sq_nonneg: "0 \<le> sum_sq a"
  unfolding sum_sq_def by (rule sum_list_nonneg) auto




lemma sum_sq_append: "sum_sq (a @ b) = sum_sq a + sum_sq b"
  by (simp add: sum_sq_def)

lemma sum_sq_take_le: "sum_sq (take n a) \<le> sum_sq a"
proof -
  have "sum_sq a = sum_sq (take n a) + sum_sq (drop n a)"
    using sum_sq_append [of "take n a" "drop n a"] by simp
  with sum_sq_nonneg [of "drop n a"] show ?thesis by simp
qed



lemma correlate_valid_nth:
  "length t \<le> length s \<Longrightarrow> i \<le> length s - length t \<Longrightarrow>
   correlate_valid s t ! i = window_dot s t i"
  by (simp add: correlate_valid_def nth_map_upt del: upt_Suc)

lemma eps_pos: "0 < eps"
  by (simp add: eps_def)




text \<open>
  A video buffer that is a run of zeros followed by the external buffer: every window that
  starts before the end of the zeros is a shifted copy of the external buffer, whose
  product with it is smaller than its energy, so the first maximum of the correlation is
  at the length of the run.
\<close>

lemma np_argmax_eqI:
  assumes k: "k < length c"
    and le: "\<And>i. i < length c \<Longrightarrow> c ! i \<le> c ! k"
    and less: "\<And>i. i < k \<Longrightarrow> c ! i < c ! k"
  shows "np_argmax c = k"
proof -
  from k have ne: "c \<noteq> []" by auto
  have mx: "Max (set c) = c ! k"
  proof (rule Max_eqI)
    show "finite (set c)" by simp
    show "c ! k \<in> set c" using k by simp
    fix y assume "y \<in> set c"
    then obtain i where "i < length c" "c ! i = y" by (auto simp: in_set_conv_nth)
    with le [of i] show "y \<le> c ! k" by simp
  qed
  have j: "c ! np_argmax c = c ! k" using np_argmax_max [OF ne] mx by simp
  show ?thesis
  proof (rule ccontr)
    assume "np_argmax c \<noteq> k"
    then consider "np_argmax c < k" | "k < np_argmax c" by linarith
    then show False
    proof cases
      case 1
      from less [OF 1] j show False by simp
    next
      case 2
      from np_argmax_first [OF 2] mx show False by simp
    qed
  qed
qed

lemma sq_diff_expand:
  "length a = length b \<Longrightarrow>
   sum_list (map2 (\<lambda>u v. (u - v) * (u - v)) a b)
     = sum_sq a - 2 * sum_list (map2 (*) a b) + sum_sq b"
  by (induction a b rule: list_induct2) (simp_all add: sum_sq_def algebra_simps)

lemma sq_diff_nonneg: "0 \<le> sum_list (map2 (\<lambda>u v. (u - v) * (u - v)) a (b :: real list))"
  by (rule sum_list_nonneg) auto

lemma sq_diff_pos:
  "length a = length b \<Longrightarrow> a \<noteq> b \<Longrightarrow>
   0 < sum_list (map2 (\<lambda>u v. (u - v) * (u - v)) a (b :: real list))"
proof (induction a b rule: list_induct2)
  case Nil
  then show ?case by simp
next
  case (Cons x a y b)
  show ?case
  proof (cases "x = y")
    case True
    with Cons.prems have "a \<noteq> b" by simp
    from Cons.IH [OF this] True show ?thesis by simp
  next
    case False
    then have "0 < (x - y) * (x - y)" by (auto simp: zero_less_mult_iff)
    with sq_diff_nonneg [of a b] show ?thesis by simp
  qed
qed

lemma shifted_all_zero:
  assumes d: "0 < d" and eq: "take (length T) (replicate d 0 @ T) = (T :: real list)"
  shows "i < length T \<Longrightarrow> T ! i = 0"
proof (induction i rule: less_induct)
  case (less i)
  have "T ! i = take (length T) (replicate d 0 @ T) ! i" using eq by simp
  also have "\<dots> = (replicate d 0 @ T) ! i" using less.prems by (simp only: nth_take)
  also have "\<dots> = 0"
  proof (cases "i < d")
    case True
    then show ?thesis by (simp add: nth_append)
  next
    case False
    then have "(replicate d 0 @ T) ! i = T ! (i - d)" by (simp add: nth_append)
    moreover have "i - d < i" "i - d < length T" using False d less.prems by simp_all
    ultimately show ?thesis using less.IH by simp
  qed
  finally show ?case .
qed

lemma shifted_dot_less:
  assumes d: "0 < d" and nz: "\<exists>x\<in>set T. x \<noteq> (0 :: real)"
  shows "sum_list (map2 (*) (take (length T) (replicate d 0 @ T)) T) < sum_sq T"
proof -
  let ?W = "take (length T) (replicate d 0 @ T)"
  have len: "length ?W = length T" by simp
  have ne: "?W \<noteq> T"
  proof
    assume eq: "?W = T"
    from nz obtain i where "i < length T" "T ! i \<noteq> 0" by (auto simp: in_set_conv_nth)
    with shifted_all_zero [OF d eq] show False by simp
  qed
  have "sum_sq ?W \<le> sum_sq (replicate d 0 @ T)" by (rule sum_sq_take_le)
  also have "\<dots> = sum_sq T" by (simp add: sum_sq_def sum_list_replicate)
  finally have w: "sum_sq ?W \<le> sum_sq T" .
  have "0 < sum_sq ?W - 2 * sum_list (map2 (*) ?W T) + sum_sq T"
    using sq_diff_pos [OF len ne] sq_diff_expand [OF len] by simp
  with w show ?thesis by simp
qed

lemma window_dot_gap:
  assumes "lag \<le> z"
  shows "window_dot (replicate z 0 @ T) T lag
           = sum_list (map2 (*) (take (length T) (replicate (z - lag) 0 @ T)) T)"
  using assms by (simp add: window_dot_def)

lemma window_dot_gap_peak: "window_dot (replicate z 0 @ T) T z = sum_sq T"
  by (simp add: window_dot_def sum_sq_def zip_same_conv_map comp_def)

lemma gap_peak_index:
  assumes nz: "\<exists>x\<in>set T. x \<noteq> (0 :: real)"
  shows "np_argmax (correlate_valid (replicate z 0 @ T) T) = z"
proof (rule np_argmax_eqI)
  let ?s = "replicate z 0 @ T"
  have ts: "length T \<le> length ?s" by simp
  have len: "length (correlate_valid ?s T) = z + 1"
    using length_correlate_valid [OF ts] by simp
  show "z < length (correlate_valid ?s T)" using len by simp
  have nth: "correlate_valid ?s T ! i = window_dot ?s T i" if "i \<le> z" for i
    using correlate_valid_nth [OF ts, of i] that by simp
  have below: "correlate_valid ?s T ! i < correlate_valid ?s T ! z" if "i < z" for i
  proof -
    from that have "0 < z - i" by simp
    from shifted_dot_less [OF this nz] window_dot_gap [of i z T] that
    have "window_dot ?s T i < sum_sq T" by simp
    then show ?thesis using nth [of i] nth [of z] that by (simp add: window_dot_gap_peak)
  qed
  show "correlate_valid ?s T ! i < correlate_valid ?s T ! z" if "i < z" for i
    using below [OF that] .
  show "correlate_valid ?s T ! i \<le> correlate_valid ?s T ! z"
    if "i < length (correlate_valid ?s T)" for i
  proof (cases "i = z")
    case True
    then show ?thesis by simp
  next
    case False
    with that len have "i < z" by simp
    from below [OF this] show ?thesis by simp
  qed
qed

lemma max_abs_gap:
  assumes "T \<noteq> []"
  shows "Max (set (map abs (replicate z 0 @ T))) = Max (set (map abs (T :: real list)))"
proof (cases "z = 0")
  case True
  then show ?thesis by simp
next
  case False
  let ?S = "set (map abs T)"
  have fin: "finite ?S" and ne: "?S \<noteq> {}" using assms by simp_all
  have "\<bar>hd T\<bar> \<in> ?S" using assms by (cases T) simp_all
  then have "\<bar>hd T\<bar> \<le> Max ?S" using fin by (rule_tac Max_ge)
  then have nonneg: "0 \<le> Max ?S" by simp
  have "set (map abs (replicate z 0 @ T)) = insert 0 ?S" using False by auto
  then have "Max (set (map abs (replicate z 0 @ T))) = max 0 (Max ?S)"
    using Max_insert [OF fin ne, of 0] by simp
  with nonneg show ?thesis by simp
qed

lemma max_abs_nonneg: "T \<noteq> [] \<Longrightarrow> 0 \<le> Max (set (map abs (T :: real list)))"
proof -
  assume ne: "T \<noteq> []"
  then have "\<bar>hd T\<bar> \<in> set (map abs T)" by (cases T) simp_all
  then have "\<bar>hd T\<bar> \<le> Max (set (map abs T))" by (rule_tac Max_ge) simp_all
  then show ?thesis by simp
qed

text \<open>The two branches of the choice of template, and the offset of each.\<close>

lemma select_signals_cases:
  assumes "0 < vsr" "0 < esr" "0 \<le> mos"
  shows "select_signals mos vn vsr en esr =
     (if length vn < length en
      then (take (nat (30 * vsr)) vn,
            take (length (take (nat (30 * vsr)) vn) + nat mos) en, False)
      else (take (nat (30 * esr)) en,
            take (length (take (nat (30 * esr)) en) + nat mos) vn, True))"
  using assms
  by (auto simp: select_signals_def Let_def slice_to_def min_def nat_add_distrib)

lemma sign_convention:
  assumes "vid \<noteq> []" "ext \<noteq> []" "0 < vsr" "0 < esr" "0 \<le> mo"
  shows "\<exists>vn en t s rv r.
           peak_normalize vid = Inr vn \<and> peak_normalize ext = Inr en
         \<and> select_signals (mo * vsr) vn vsr en esr = (t, s, rv)
         \<and> rv = (length ext \<le> length vid)
         \<and> t = (if rv then take (nat (30 * esr)) en else take (nat (30 * vsr)) vn)
         \<and> s = (if rv then take (length t + nat (mo * vsr)) vn
                 else take (length t + nat (mo * vsr)) en)
         \<and> cross_correlation_sync mo (vid, vsr) (ext, esr) = Inr r
         \<and> offset_seconds r =
             (if rv then real (np_argmax (correlate_valid s t)) / real_of_int vsr
              else - real (np_argmax (correlate_valid s t)) / real_of_int esr)"
proof -
  obtain vn en t s rv where
    pv: "peak_normalize vid = Inr vn" and pe: "peak_normalize ext = Inr en"
    and sel: "select_signals (mo * vsr) vn vsr en esr = (t, s, rv)"
    and res: "cross_correlation_sync mo (vid, vsr) (ext, esr) =
             Inr \<lparr> offset_seconds =
                     (if rv then real (np_argmax (correlate_valid s t)) / real_of_int vsr
                      else - real (np_argmax (correlate_valid s t)) / real_of_int esr),
                   confidence =
                     min (correlate_valid s t ! np_argmax (correlate_valid s t)
                          / (sqrt (sum_sq t * sum_sq s) + eps)) 1,
                   correlation_peak = correlate_valid s t ! np_argmax (correlate_valid s t),
                   sample_rate = vsr,
                   sync_method = ''cross_correlation'' \<rparr>"
    using sync_result [OF assms] by blast
  have lv: "length vn = length vid" and le: "length en = length ext"
    using pv pe peak_normalize_nonempty [OF assms(1)] peak_normalize_nonempty [OF assms(2)]
    by auto
  have m: "0 \<le> mo * vsr" using assms by simp
  note sc = select_signals_cases [OF assms(3,4) m, of vn en]
  have rv: "rv = (length ext \<le> length vid)"
    using sel sc lv le by (auto split: if_splits)
  have t: "t = (if rv then take (nat (30 * esr)) en else take (nat (30 * vsr)) vn)"
    using sel sc lv le rv by (auto split: if_splits)
  have s: "s = (if rv then take (length t + nat (mo * vsr)) vn
                 else take (length t + nat (mo * vsr)) en)"
    using sel sc lv le rv by (auto split: if_splits)
  let ?r = "\<lparr> offset_seconds =
                     (if rv then real (np_argmax (correlate_valid s t)) / real_of_int vsr
                      else - real (np_argmax (correlate_valid s t)) / real_of_int esr),
                   confidence =
                     min (correlate_valid s t ! np_argmax (correlate_valid s t)
                          / (sqrt (sum_sq t * sum_sq s) + eps)) 1,
                   correlation_peak = correlate_valid s t ! np_argmax (correlate_valid s t),
                   sample_rate = vsr,
                   sync_method = ''cross_correlation'' \<rparr>"
  have o: "offset_seconds ?r =
             (if rv then real (np_argmax (correlate_valid s t)) / real_of_int vsr
              else - real (np_argmax (correlate_valid s t)) / real_of_int esr)"
    by simp
  from pv pe sel rv t s res o show ?thesis by blast
qed

lemma gap_result:
  assumes "0 < vsr" "0 < esr" and nz: "\<exists>x\<in>set T. x \<noteq> (0 :: real)"
    and "int (length T) \<le> 30 * esr" "int z \<le> mo * vsr"
  shows "\<exists>r. cross_correlation_sync mo (replicate z 0 @ T, vsr) (T, esr) = Inr r
           \<and> sync_peak_index mo (replicate z 0 @ T, vsr) (T, esr) = z
           \<and> offset_seconds r = real z / real_of_int vsr
           \<and> correlation_peak r = sum_sq (map (\<lambda>x. x / (Max (set (map abs T)) + eps)) T)"
proof -
  let ?M = "Max (set (map abs T))"
  let ?Tn = "map (\<lambda>x. x / (?M + eps)) T"
  let ?vid = "replicate z 0 @ T"
  let ?vn = "replicate z 0 @ ?Tn"
  from nz have T: "T \<noteq> []" by auto
  then have vid: "?vid \<noteq> []" by simp
  have M: "0 < ?M + eps" using max_abs_nonneg [OF T] eps_pos by simp
  have nzn: "\<exists>x\<in>set ?Tn. x \<noteq> 0" using nz M by auto
  have vn: "map (\<lambda>x. x / (Max (set (map abs ?vid)) + eps)) ?vid = ?vn"
    unfolding max_abs_gap [OF T] by simp
  have mo: "0 \<le> mo * vsr" using assms(5) by simp
  have sel: "select_signals (mo * vsr) ?vn vsr ?Tn esr = (?Tn, ?vn, True)"
    using assms(4,5) select_signals_cases [OF assms(1,2) mo, of ?vn ?Tn] by simp
  have sg: "sync_signals mo (?vid, vsr) (T, esr) = (?Tn, ?vn, True)"
    unfolding sync_signals_def prod.case vn by (rule sel)
  have pk: "sync_peak_index mo (?vid, vsr) (T, esr) = z"
    unfolding sync_peak_index_def sg prod.case by (rule gap_peak_index [OF nzn])
  have ts: "length ?Tn \<le> length ?vn" by simp
  have "correlate_valid ?vn ?Tn ! z = window_dot ?vn ?Tn z"
    by (rule correlate_valid_nth [OF ts]) simp
  then have pv: "correlate_valid ?vn ?Tn ! z = sum_sq ?Tn"
    by (simp only: window_dot_gap_peak)
  have Tn: "?Tn \<noteq> []" using T by simp
  from sync_unfold [OF vid T sg] Tn pk pv show ?thesis by simp
qed

subsection \<open>The sample rate of the result\<close>

text \<open>
  Claim C10. Every result the estimator returns carries the sample rate of the audio
  extracted from the video, whichever buffer was the template and whichever rate turned
  the lag into seconds.
\<close>

theorem sample_rate_is_video_rate:
  "cross_correlation_sync mo (vid, vsr) (ext, esr) = Inr r \<Longrightarrow> sample_rate r = vsr"
  by (auto simp: cross_correlation_sync_def Let_def split: sum.splits prod.splits if_splits)

theorem sample_rate_is_video_rate_witness:
  "\<exists>r. cross_correlation_sync 60 ([1/2, 1], 22050) ([0, 1/2, 1], 44100) = Inr r
       \<and> sample_rate r = 22050"
proof -
  obtain r where r: "cross_correlation_sync 60 ([1/2, 1], 22050) ([0, 1/2, 1], 44100) = Inr r"
    using sync_returns [of 22050 44100 60 "[1/2, 1]" "[0, 1/2, 1]"] by auto
  from sample_rate_is_video_rate [OF r] r show ?thesis by blast
qed

subsection \<open>Buffers of equal length\<close>

text \<open>
  Claim C9. When the two buffers have the same length the comparison
  \<^verbatim>\<open>len(vid_audio) < len(ext_audio)\<close> is false, so the template is cut from the
  external buffer: it is the first \<open>30 * ext_sr\<close> samples of the normalised external
  audio, the search signal is the normalised video audio cut to the template's length plus
  the search bound, and \<open>reverse\<close> is set. The offset is then the lag of the
  correlation peak of these two signals divided by the video's sample rate, and it is not
  negative. The buffers are not empty and the rates are positive, so that the estimator
  returns.
\<close>

theorem equal_lengths_external_template:
  assumes "length vid = length ext" "vid \<noteq> []" "0 < vsr" "0 < esr" "0 \<le> mo"
  shows "\<exists>vn en t s r.
           peak_normalize vid = Inr vn \<and> peak_normalize ext = Inr en
         \<and> t = take (nat (30 * esr)) en
         \<and> s = take (length t + nat (mo * vsr)) vn
         \<and> select_signals (mo * vsr) vn vsr en esr = (t, s, True)
         \<and> cross_correlation_sync mo (vid, vsr) (ext, esr) = Inr r
         \<and> correlation_peak r = correlate_valid s t ! np_argmax (correlate_valid s t)
         \<and> offset_seconds r = real (np_argmax (correlate_valid s t)) / real_of_int vsr
         \<and> 0 \<le> offset_seconds r"
proof -
  from assms have ext: "ext \<noteq> []" by auto
  let ?vn = "map (\<lambda>x. x / (Max (set (map abs vid)) + eps)) vid"
  let ?en = "map (\<lambda>x. x / (Max (set (map abs ext)) + eps)) ext"
  let ?t = "take (nat (30 * esr)) ?en"
  let ?s = "take (length ?t + nat (mo * vsr)) ?vn"
  have pv: "peak_normalize vid = Inr ?vn" and pe: "peak_normalize ext = Inr ?en"
    using assms(2) ext by (simp_all add: peak_normalize_def np_max_abs_def)
  have m: "0 \<le> mo * vsr" using assms by simp
  have len: "length ?vn = length ?en" using assms(1) by simp
  have sel: "select_signals (mo * vsr) ?vn vsr ?en esr = (?t, ?s, True)"
    by (rule select_signals_equal [OF len assms(4) m])
  then have sg: "sync_signals mo (vid, vsr) (ext, esr) = (?t, ?s, True)"
    by (simp add: sync_signals_def)
  have sh: "?t \<noteq> [] \<and> length ?t \<le> length ?s"
    by (rule sync_signals_shape [OF assms(3,4,5,2) ext sg])
  then have t: "?t \<noteq> []" by (rule conjunct1)
  from sh have s: "?s \<noteq> []" by (metis le_zero_eq length_0_conv)
  note ne = t s
  have pk: "sync_peak_index mo (vid, vsr) (ext, esr) = np_argmax (correlate_valid ?s ?t)"
    using sg by (simp add: sync_peak_index_def)
  let ?r = "\<lparr> offset_seconds = real (np_argmax (correlate_valid ?s ?t)) / real_of_int vsr,
              confidence = min (correlate_valid ?s ?t ! np_argmax (correlate_valid ?s ?t)
                                   / (sqrt (sum_sq ?t * sum_sq ?s) + eps)) 1,
              correlation_peak = correlate_valid ?s ?t ! np_argmax (correlate_valid ?s ?t),
              sample_rate = vsr,
              sync_method = ''cross_correlation'' \<rparr>"
  have res: "cross_correlation_sync mo (vid, vsr) (ext, esr) = Inr ?r"
    using sync_unfold [OF assms(2) ext sg] ne pk by simp
  have c1: "correlation_peak ?r = correlate_valid ?s ?t ! np_argmax (correlate_valid ?s ?t)"
    by simp
  have c2: "offset_seconds ?r = real (np_argmax (correlate_valid ?s ?t)) / real_of_int vsr"
    by simp
  have c3: "0 \<le> offset_seconds ?r" using assms(3) by simp
  have "peak_normalize vid = Inr ?vn \<and> peak_normalize ext = Inr ?en
         \<and> ?t = take (nat (30 * esr)) ?en
         \<and> ?s = take (length ?t + nat (mo * vsr)) ?vn
         \<and> select_signals (mo * vsr) ?vn vsr ?en esr = (?t, ?s, True)
         \<and> cross_correlation_sync mo (vid, vsr) (ext, esr) = Inr ?r
         \<and> correlation_peak ?r = correlate_valid ?s ?t ! np_argmax (correlate_valid ?s ?t)
         \<and> offset_seconds ?r = real (np_argmax (correlate_valid ?s ?t)) / real_of_int vsr
         \<and> 0 \<le> offset_seconds ?r"
    by (intro conjI refl pv pe sel res c1 c2 c3)
  then show ?thesis
    apply -
    apply (rule exI)+
    apply assumption
    done
qed

text \<open>
  An instance with two lags: 31 samples each, two samples per second in the video audio
  and one in the external audio. The only pulse of the video is one sample later than the
  external one, and the offset is half a second, with the positive sign.
\<close>

theorem equal_lengths_external_template_witness:
  "\<exists>vn en r.
       peak_normalize [0, 1, 0, 0, 0, 0, 0, 0, 0, 0, 0, 0, 0, 0, 0, 0,
            0, 0, 0, 0, 0, 0, 0, 0, 0, 0, 0, 0, 0, 0, 0] = Inr vn
     \<and> peak_normalize [1, 0, 0, 0, 0, 0, 0, 0, 0, 0, 0, 0, 0, 0, 0, 0,
            0, 0, 0, 0, 0, 0, 0, 0, 0, 0, 0, 0, 0, 0, 0] = Inr en
     \<and> select_signals (60 * 2) vn 2 en 1 = (take 30 en, vn, True)
     \<and> cross_correlation_sync 60
          ([0, 1, 0, 0, 0, 0, 0, 0, 0, 0, 0, 0, 0, 0, 0, 0,
            0, 0, 0, 0, 0, 0, 0, 0, 0, 0, 0, 0, 0, 0, 0], 2)
          ([1, 0, 0, 0, 0, 0, 0, 0, 0, 0, 0, 0, 0, 0, 0, 0,
            0, 0, 0, 0, 0, 0, 0, 0, 0, 0, 0, 0, 0, 0, 0], 1) = Inr r
     \<and> offset_seconds r = 1 / 2"
proof -
  let ?vid = "[0, 1, 0, 0, 0, 0, 0, 0, 0, 0, 0, 0, 0, 0, 0, 0,
            0, 0, 0, 0, 0, 0, 0, 0, 0, 0, 0, 0, 0, 0, 0] :: real list"
  let ?ext = "[1, 0, 0, 0, 0, 0, 0, 0, 0, 0, 0, 0, 0, 0, 0, 0,
            0, 0, 0, 0, 0, 0, 0, 0, 0, 0, 0, 0, 0, 0, 0] :: real list"
  obtain vn en t s r where
    pv: "peak_normalize ?vid = Inr vn" and pe: "peak_normalize ?ext = Inr en"
    and t: "t = take (nat (30 * 1)) en" and s: "s = take (length t + nat (60 * 2)) vn"
    and sel: "select_signals (60 * 2) vn 2 en 1 = (t, s, True)"
    and res: "cross_correlation_sync 60 (?vid, 2) (?ext, 1) = Inr r"
    and off: "offset_seconds r = real (np_argmax (correlate_valid s t)) / real_of_int 2"
    using equal_lengths_external_template [of ?vid ?ext 2 1 60] by auto
  from pv have vn: "vn = map (\<lambda>x. x / (1 + eps)) ?vid"
    by (simp add: peak_normalize_def np_max_abs_def)
  from pe have en: "en = map (\<lambda>x. x / (1 + eps)) ?ext"
    by (simp add: peak_normalize_def np_max_abs_def)
  have t': "t = take 30 en" using t by simp
  have s': "s = vn" using s t' by (simp add: vn en)
  have "np_argmax (correlate_valid s t) = 1"
    unfolding s' t' vn en
    by (simp add: correlate_valid_def window_dot_def np_argmax_def eps_def)
  with off have "offset_seconds r = 1 / 2" by simp
  with pv pe sel res t' s' show ?thesis by blast
qed

subsection \<open>When the estimator fails\<close>

text \<open>
  Claim C6, as the code has it. With positive sample rates and a search bound that is not
  negative, the estimator fails exactly when one of the two buffers is empty, and the
  failure is the \<^verbatim>\<open>ValueError\<close> NumPy raises from \<^verbatim>\<open>np.max\<close> of an empty array;
  every other pair of buffers, silent ones included, gives a result.
\<close>

theorem sync_fails_iff_empty:
  assumes "0 < vsr" "0 < esr" "0 \<le> mo"
  shows "(cross_correlation_sync mo (vid, vsr) (ext, esr) =
            Inl (ValueError ''zero-size array to reduction operation maximum which has no identity'')
          \<longleftrightarrow> vid = [] \<or> ext = [])
       \<and> ((\<exists>r. cross_correlation_sync mo (vid, vsr) (ext, esr) = Inr r)
          \<longleftrightarrow> vid \<noteq> [] \<and> ext \<noteq> [])"
proof (cases "vid = [] \<or> ext = []")
  case True
  from sync_empty_error [OF True] True show ?thesis by auto
next
  case False
  then obtain r where "cross_correlation_sync mo (vid, vsr) (ext, esr) = Inr r"
    using sync_returns [OF assms, of vid ext] by auto
  with False show ?thesis by simp
qed

theorem sync_fails_iff_empty_witness:
  "cross_correlation_sync 60 ([], 22050) ([1], 22050) =
     Inl (ValueError ''zero-size array to reduction operation maximum which has no identity'')
   \<and> cross_correlation_sync 60 ([1], 22050) ([], 22050) =
     Inl (ValueError ''zero-size array to reduction operation maximum which has no identity'')
   \<and> cross_correlation_sync 60 ([0, 0], 22050) ([0, 0, 0], 22050) \<noteq>
     Inl (ValueError ''zero-size array to reduction operation maximum which has no identity'')
   \<and> (\<exists>r. cross_correlation_sync 60 ([0, 0], 22050) ([0, 0, 0], 22050) = Inr r)"
  using sync_fails_iff_empty [of 22050 22050 60 "[]" "[1]"]
    sync_fails_iff_empty [of 22050 22050 60 "[1]" "[]"]
    sync_fails_iff_empty [of 22050 22050 60 "[0, 0]" "[0, 0, 0]"]
  by simp

text \<open>
  The claim as the specification words it fails on silent buffers: two buffers of zeros
  give a result (offset 0, confidence 0), not an error.
\<close>

theorem silent_buffers_give_result:
  "cross_correlation_sync 60 ([0, 0], 22050) ([0, 0, 0], 22050) =
   Inr \<lparr> offset_seconds = 0, confidence = 0, correlation_peak = 0, sample_rate = 22050,
          sync_method = ''cross_correlation'' \<rparr>"
  by (simp add: cross_correlation_sync_def peak_normalize_def np_max_abs_def select_signals_def
      slice_to_def correlate_valid_def window_dot_def np_argmax_def sum_sq_def eps_def Let_def)

subsection \<open>The range of the confidence\<close>




subsection \<open>The sign of the offset and the gap scenario\<close>

text \<open>
  Claim C2, as the code has it, for positive rates and a search bound that is not
  negative. First, for buffers that are not empty: when the external buffer is not longer
  than the video buffer the template is cut from the external buffer and the offset is
  the peak lag divided by the video's rate, with the positive sign; otherwise the template
  is cut from the video buffer and the offset is the peak lag divided by the external
  rate, negated. Second, the scenario: when the video buffer is \<open>z\<close> zero samples
  followed by a buffer \<open>T\<close> that is not silent, the external buffer is \<open>T\<close> itself with
  nothing after it, \<open>T\<close> is no longer than 30 seconds and the search bound covers the
  \<open>z\<close> samples, the peak is at lag \<open>z\<close> and the offset is \<open>z\<close> divided by the video's rate.
\<close>

theorem offset_sign_and_gap:
  assumes "0 < vsr" "0 < esr" "0 \<le> mo"
  shows "(vid \<noteq> [] \<and> ext \<noteq> [] \<longrightarrow>
           (\<exists>vn en t s rv r.
               peak_normalize vid = Inr vn \<and> peak_normalize ext = Inr en
             \<and> select_signals (mo * vsr) vn vsr en esr = (t, s, rv)
             \<and> rv = (length ext \<le> length vid)
             \<and> t = (if rv then take (nat (30 * esr)) en else take (nat (30 * vsr)) vn)
             \<and> s = (if rv then take (length t + nat (mo * vsr)) vn
                     else take (length t + nat (mo * vsr)) en)
             \<and> cross_correlation_sync mo (vid, vsr) (ext, esr) = Inr r
             \<and> offset_seconds r =
                 (if rv then real (np_argmax (correlate_valid s t)) / real_of_int vsr
                  else - real (np_argmax (correlate_valid s t)) / real_of_int esr)))
       \<and> ((\<exists>x\<in>set T. x \<noteq> 0) \<and> int (length T) \<le> 30 * esr \<and> int z \<le> mo * vsr \<longrightarrow>
           (\<exists>r. cross_correlation_sync mo (replicate z 0 @ T, vsr) (T, esr) = Inr r
              \<and> sync_peak_index mo (replicate z 0 @ T, vsr) (T, esr) = z
              \<and> offset_seconds r = real z / real_of_int vsr
              \<and> correlation_peak r
                  = sum_sq (map (\<lambda>x. x / (Max (set (map abs T)) + eps)) T)))"
proof (intro conjI impI)
  assume "vid \<noteq> [] \<and> ext \<noteq> []"
  then have v: "vid \<noteq> []" and e: "ext \<noteq> []" by simp_all
  show "\<exists>vn en t s rv r.
               peak_normalize vid = Inr vn \<and> peak_normalize ext = Inr en
             \<and> select_signals (mo * vsr) vn vsr en esr = (t, s, rv)
             \<and> rv = (length ext \<le> length vid)
             \<and> t = (if rv then take (nat (30 * esr)) en else take (nat (30 * vsr)) vn)
             \<and> s = (if rv then take (length t + nat (mo * vsr)) vn
                     else take (length t + nat (mo * vsr)) en)
             \<and> cross_correlation_sync mo (vid, vsr) (ext, esr) = Inr r
             \<and> offset_seconds r =
                 (if rv then real (np_argmax (correlate_valid s t)) / real_of_int vsr
                  else - real (np_argmax (correlate_valid s t)) / real_of_int esr)"
    by (rule sign_convention [OF v e assms])
next
  assume a: "(\<exists>x\<in>set T. x \<noteq> 0) \<and> int (length T) \<le> 30 * esr \<and> int z \<le> mo * vsr"
  then have nz: "\<exists>x\<in>set T. x \<noteq> 0" and l: "int (length T) \<le> 30 * esr"
    and g: "int z \<le> mo * vsr"
    by simp_all
  show "\<exists>r. cross_correlation_sync mo (replicate z 0 @ T, vsr) (T, esr) = Inr r
              \<and> sync_peak_index mo (replicate z 0 @ T, vsr) (T, esr) = z
              \<and> offset_seconds r = real z / real_of_int vsr
              \<and> correlation_peak r
                  = sum_sq (map (\<lambda>x. x / (Max (set (map abs T)) + eps)) T)"
    by (rule gap_result [OF assms(1,2) nz l g])
qed

theorem offset_sign_and_gap_witness:
  "(\<exists>r. cross_correlation_sync 60 ([1], 22050) ([0, 1], 44100) = Inr r
        \<and> offset_seconds r = - (1 / 44100))
   \<and> (\<exists>r. cross_correlation_sync 60 ([0, 0, 1, 2], 22050) ([1, 2], 44100) = Inr r
        \<and> sync_peak_index 60 ([0, 0, 1, 2], 22050) ([1, 2], 44100) = 2
        \<and> offset_seconds r = 2 / 22050)"
proof
  obtain vn en t s rv r where
    pv: "peak_normalize [1] = Inr vn" and pe: "peak_normalize [0, 1] = Inr en"
    and rv: "rv = (length [0 :: real, 1] \<le> length [1 :: real])"
    and t: "t = (if rv then take (nat (30 * 44100)) en else take (nat (30 * 22050)) vn)"
    and s: "s = (if rv then take (length t + nat (60 * 22050)) vn
                 else take (length t + nat (60 * 22050)) en)"
    and res: "cross_correlation_sync 60 ([1], 22050) ([0, 1], 44100) = Inr r"
    and off: "offset_seconds r =
                 (if rv then real (np_argmax (correlate_valid s t)) / real_of_int 22050
                  else - real (np_argmax (correlate_valid s t)) / real_of_int 44100)"
    using offset_sign_and_gap [of 22050 44100 60 "[1]" "[0, 1]" "[]" 0] by auto
  from pv have vn: "vn = [1 / (1 + eps)]" by (simp add: peak_normalize_def np_max_abs_def)
  from pe have en: "en = [0, 1 / (1 + eps)]" by (simp add: peak_normalize_def np_max_abs_def)
  from rv have rv': "\<not> rv" by simp
  have t': "t = vn" using t rv' vn by simp
  have s': "s = en" using s rv' t' vn en by simp
  have "np_argmax (correlate_valid s t) = 1"
    unfolding s' t' vn en
    by (simp add: correlate_valid_def window_dot_def np_argmax_def eps_def)
  with off rv' have "offset_seconds r = - (1 / 44100)" by simp
  with res show "\<exists>r. cross_correlation_sync 60 ([1], 22050) ([0, 1], 44100) = Inr r
        \<and> offset_seconds r = - (1 / 44100)" by blast
next
  show "\<exists>r. cross_correlation_sync 60 ([0, 0, 1, 2], 22050) ([1, 2], 44100) = Inr r
        \<and> sync_peak_index 60 ([0, 0, 1, 2], 22050) ([1, 2], 44100) = 2
        \<and> offset_seconds r = 2 / 22050"
    using offset_sign_and_gap [of 22050 44100 60 "[]" "[]" "[1, 2]" 2]
    by (auto simp: numeral_2_eq_2)
qed

text \<open>
  The scenario as the specification words it, with noise after the template, fails: the
  whole external buffer is the template, 501 samples here, so the correlation with the
  1500 samples of the video has the lags 0 to 999 only and the offset is below
  \<open>1000 / 22050\<close>.
\<close>

theorem trailing_noise_moves_peak:
  "\<not> isl (cross_correlation_sync 60
            (replicate 1000 0 @ replicate 500 1, 22050) (replicate 500 1 @ [1 / 2], 22050))
   \<and> offset_seconds (projr (cross_correlation_sync 60
            (replicate 1000 0 @ replicate 500 1, 22050) (replicate 500 1 @ [1 / 2], 22050)))
       < 1000 / 22050"
proof -
  let ?vid = "replicate 1000 0 @ replicate 500 (1 :: real)"
  let ?ext = "replicate 500 1 @ [1 / 2 :: real]"
  have v: "?vid \<noteq> []" and e: "?ext \<noteq> []" by simp_all
  obtain vn en t s rv r where
    pv: "peak_normalize ?vid = Inr vn" and pe: "peak_normalize ?ext = Inr en"
    and rv: "rv = (length ?ext \<le> length ?vid)"
    and t: "t = (if rv then take (nat (30 * 22050)) en else take (nat (30 * 22050)) vn)"
    and s: "s = (if rv then take (length t + nat (60 * 22050)) vn
                 else take (length t + nat (60 * 22050)) en)"
    and res: "cross_correlation_sync 60 (?vid, 22050) (?ext, 22050) = Inr r"
    and off: "offset_seconds r =
                 (if rv then real (np_argmax (correlate_valid s t)) / real_of_int 22050
                  else - real (np_argmax (correlate_valid s t)) / real_of_int 22050)"
    using sign_convention [OF v e, of 22050 22050 60] by auto
  have lv: "length vn = 1500" using pv peak_normalize_nonempty [OF v] by auto
  have le: "length en = 501" using pe peak_normalize_nonempty [OF e] by auto
  from rv have rv': "rv" by simp
  have lt: "length t = 501" using t rv' le by simp
  have ls: "length s = 1500" using s rv' lt lv by simp
  have lc: "length (correlate_valid s t) = 1000"
    using length_correlate_valid [of t s] lt ls by simp
  then have "correlate_valid s t \<noteq> []" by auto
  then have "np_argmax (correlate_valid s t) < length (correlate_valid s t)"
    by (rule np_argmax_less)
  then have "np_argmax (correlate_valid s t) < 1000" unfolding lc .
  with off rv' have "offset_seconds r < 1000 / 22050" by simp
  with res show ?thesis by simp
qed

section \<open>Properties of the offset applier\<close>









section \<open>Properties of the export planner\<close>

lemma replace_original:
  assumes "mute_original w" "resolution (export_settings w) = ''original''"
  shows "\<not> has_scale_filter (build_ffmpeg_command w tmp)"
    and "has_option ''-c:v'' (video_codec (export_settings w)) (build_ffmpeg_command w tmp)"
    and "video_stream_copy (build_ffmpeg_command w tmp)
           \<longleftrightarrow> video_codec (export_settings w) = ''copy''"
  using assms
  by (auto simp: build_ffmpeg_command_def has_option_def has_scale_filter_def
      video_stream_copy_def startswith_def Let_def)

lemma replace_scaled:
  assumes "mute_original w" "resolution (export_settings w) \<noteq> ''original''"
  shows "has_option ''-vf'' (''scale='' @ resolution (export_settings w))
           (build_ffmpeg_command w tmp)"
    and "has_scale_filter (build_ffmpeg_command w tmp)"
    and "\<not> video_stream_copy (build_ffmpeg_command w tmp)"
  using assms
  by (auto simp: build_ffmpeg_command_def has_option_def has_scale_filter_def
      video_stream_copy_def startswith_def Let_def)

lemma replace_audio:
  assumes "mute_original w"
  shows "has_option ''-c:a'' (audio_codec (export_settings w)) (build_ffmpeg_command w tmp)"
    and "has_option ''-b:a'' (audio_bitrate (export_settings w)) (build_ffmpeg_command w tmp)"
  using assms
  by (auto simp: build_ffmpeg_command_def has_option_def Let_def)

lemma replace_v2:
  assumes "mute_original v"
  shows "video_stream_copy (build_command_v2 v tmp)"
    and "\<not> has_scale_filter (build_command_v2 v tmp)"
    and "has_option ''-c:a'' ''aac'' (build_command_v2 v tmp)"
    and "has_option ''-b:a'' ''192k'' (build_command_v2 v tmp)"
  using assms
  by (auto simp: build_command_v2_def has_option_def has_scale_filter_def
      video_stream_copy_def startswith_def)

lemma mix_pro:
  assumes "\<not> mute_original w"
  shows "has_option ''-filter_complex''
           ''[0:a]volume=0.3[original];[1:a]volume=1.0[new];[original][new]amix=inputs=2:duration=shortest''
           (build_ffmpeg_command w tmp)"
    and "has_option ''-c:v'' (video_codec (export_settings w)) (build_ffmpeg_command w tmp)"
    and "video_stream_copy (build_ffmpeg_command w tmp)
           \<longleftrightarrow> video_codec (export_settings w) = ''copy''"
  using assms
  by (auto simp: build_ffmpeg_command_def has_option_def audio_filter_def
      video_stream_copy_def Let_def)

lemma mix_v2:
  assumes "\<not> mute_original v"
  shows "has_option ''-filter_complex''
           ''[0:a]volume=0.3[original];[1:a]volume=1.0[new];[original][new]amix=inputs=2:duration=shortest''
           (build_command_v2 v tmp)"
    and "video_stream_copy (build_command_v2 v tmp)"
  using assms
  by (auto simp: build_command_v2_def has_option_def audio_filter_def video_stream_copy_def)

subsection \<open>Replace mode\<close>

text \<open>
  Claim C3, as the code has it. In Replace mode the professional edition, at the resolution
  \<^verbatim>\<open>original\<close>, emits no scale filter and gives \<^verbatim>\<open>-c:v\<close> the chosen video codec, so the
  video is copied only when that codec is \<^verbatim>\<open>copy\<close>; at any other resolution it emits the
  filter \<^verbatim>\<open>-vf scale=\<close>\<open>resolution\<close> and no stream copy; in both cases \<^verbatim>\<open>-c:a\<close> and
  \<^verbatim>\<open>-b:a\<close> carry the chosen audio codec and bitrate. The Windows edition has no export
  settings: its Replace command always copies the video stream, never scales, and encodes
  the audio as \<^verbatim>\<open>aac\<close> at \<^verbatim>\<open>192k\<close>.
\<close>

theorem replace_mode_command:
  assumes "mute_original w" and "mute_original v"
  shows "(resolution (export_settings w) = ''original'' \<longrightarrow>
            \<not> has_scale_filter (build_ffmpeg_command w tmp)
          \<and> has_option ''-c:v'' (video_codec (export_settings w)) (build_ffmpeg_command w tmp)
          \<and> (video_stream_copy (build_ffmpeg_command w tmp)
                \<longleftrightarrow> video_codec (export_settings w) = ''copy''))
       \<and> (resolution (export_settings w) \<noteq> ''original'' \<longrightarrow>
            has_option ''-vf'' (''scale='' @ resolution (export_settings w))
              (build_ffmpeg_command w tmp)
          \<and> has_scale_filter (build_ffmpeg_command w tmp)
          \<and> \<not> video_stream_copy (build_ffmpeg_command w tmp))
       \<and> has_option ''-c:a'' (audio_codec (export_settings w)) (build_ffmpeg_command w tmp)
       \<and> has_option ''-b:a'' (audio_bitrate (export_settings w)) (build_ffmpeg_command w tmp)
       \<and> video_stream_copy (build_command_v2 v tmp')
       \<and> \<not> has_scale_filter (build_command_v2 v tmp')
       \<and> has_option ''-c:a'' ''aac'' (build_command_v2 v tmp')
       \<and> has_option ''-b:a'' ''192k'' (build_command_v2 v tmp')"
  using replace_original [OF assms(1), of tmp] replace_scaled [OF assms(1), of tmp]
    replace_audio [OF assms(1), of tmp] replace_v2 [OF assms(2), of tmp']
  by blast

theorem replace_mode_command_witness:
  "\<not> has_scale_filter (build_ffmpeg_command
      \<lparr> video_path = ''in.mp4'', audio_path = ''new.wav'', output_path = ''out.mp4'',
        offset = 0, mute_original = True, export_settings = default_settings \<rparr>
      ''tmp.wav'')
   \<and> has_option ''-c:v'' ''libx264'' (build_ffmpeg_command
      \<lparr> video_path = ''in.mp4'', audio_path = ''new.wav'', output_path = ''out.mp4'',
        offset = 0, mute_original = True, export_settings = default_settings \<rparr>
      ''tmp.wav'')
   \<and> \<not> video_stream_copy (build_ffmpeg_command
      \<lparr> video_path = ''in.mp4'', audio_path = ''new.wav'', output_path = ''out.mp4'',
        offset = 0, mute_original = True, export_settings = default_settings \<rparr>
      ''tmp.wav'')
   \<and> has_option ''-vf'' ''scale=1280x720'' (build_ffmpeg_command
      \<lparr> video_path = ''in.mp4'', audio_path = ''new.wav'', output_path = ''out.mp4'',
        offset = 0, mute_original = True,
        export_settings = default_settings \<lparr> resolution := ''1280x720'' \<rparr> \<rparr>
      ''tmp.wav'')
   \<and> has_scale_filter (build_ffmpeg_command
      \<lparr> video_path = ''in.mp4'', audio_path = ''new.wav'', output_path = ''out.mp4'',
        offset = 0, mute_original = True,
        export_settings = default_settings \<lparr> resolution := ''1280x720'' \<rparr> \<rparr>
      ''tmp.wav'')
   \<and> \<not> video_stream_copy (build_ffmpeg_command
      \<lparr> video_path = ''in.mp4'', audio_path = ''new.wav'', output_path = ''out.mp4'',
        offset = 0, mute_original = True,
        export_settings = default_settings \<lparr> resolution := ''1280x720'' \<rparr> \<rparr>
      ''tmp.wav'')
   \<and> has_option ''-c:a'' ''aac'' (build_ffmpeg_command
      \<lparr> video_path = ''in.mp4'', audio_path = ''new.wav'', output_path = ''out.mp4'',
        offset = 0, mute_original = True,
        export_settings = default_settings \<lparr> resolution := ''1280x720'' \<rparr> \<rparr>
      ''tmp.wav'')
   \<and> has_option ''-b:a'' ''192k'' (build_ffmpeg_command
      \<lparr> video_path = ''in.mp4'', audio_path = ''new.wav'', output_path = ''out.mp4'',
        offset = 0, mute_original = True,
        export_settings = default_settings \<lparr> resolution := ''1280x720'' \<rparr> \<rparr>
      ''tmp.wav'')
   \<and> video_stream_copy (build_command_v2
      \<lparr> video_path = ''in.mp4'', audio_path = ''new.wav'', output_path = ''out.mp4'',
        offset = 0, mute_original = True \<rparr>
      ''tmp.wav'')
   \<and> \<not> has_scale_filter (build_command_v2
      \<lparr> video_path = ''in.mp4'', audio_path = ''new.wav'', output_path = ''out.mp4'',
        offset = 0, mute_original = True \<rparr>
      ''tmp.wav'')"
  using replace_mode_command [of "
      \<lparr> video_path = ''in.mp4'', audio_path = ''new.wav'', output_path = ''out.mp4'',
        offset = 0, mute_original = True, export_settings = default_settings \<rparr>
     " "
      \<lparr> video_path = ''in.mp4'', audio_path = ''new.wav'', output_path = ''out.mp4'',
        offset = 0, mute_original = True \<rparr>
     " "''tmp.wav''" "''tmp.wav''"]
    replace_mode_command [of "
      \<lparr> video_path = ''in.mp4'', audio_path = ''new.wav'', output_path = ''out.mp4'',
        offset = 0, mute_original = True,
        export_settings = default_settings \<lparr> resolution := ''1280x720'' \<rparr> \<rparr>
     " "
      \<lparr> video_path = ''in.mp4'', audio_path = ''new.wav'', output_path = ''out.mp4'',
        offset = 0, mute_original = True \<rparr>
     " "''tmp.wav''" "''tmp.wav''"]
  by (simp add: default_settings_def)

text \<open>
  The claim as the specification words it fails on the default profile: at the resolution
  \<^verbatim>\<open>original\<close> the professional edition encodes the video with \<^verbatim>\<open>libx264\<close>, it does not
  copy it.
\<close>

theorem replace_original_reencodes:
  "build_ffmpeg_command
      \<lparr> video_path = ''in.mp4'', audio_path = ''new.wav'', output_path = ''out.mp4'',
        offset = 0, mute_original = True, export_settings = default_settings \<rparr>
      ''tmp.wav'' =
     [''ffmpeg'', ''-i'', ''in.mp4'', ''-i'', ''tmp.wav'', ''-c:v'', ''libx264'', ''-c:a'', ''aac'',
      ''-b:v'', ''8M'', ''-b:a'', ''192k'', ''-crf'', ''23'', ''-preset'', ''medium'',
      ''-map'', ''0:v:0'', ''-map'', ''1:a:0'', ''-shortest'', ''-y'', ''out.mp4'']
   \<and> \<not> video_stream_copy (build_ffmpeg_command
      \<lparr> video_path = ''in.mp4'', audio_path = ''new.wav'', output_path = ''out.mp4'',
        offset = 0, mute_original = True, export_settings = default_settings \<rparr>
      ''tmp.wav'')"
  by (simp add: build_ffmpeg_command_def default_settings_def str_int_def has_option_def
      video_stream_copy_def Let_def)

subsection \<open>Mix mode\<close>

text \<open>
  Claim C4, as the code has it. When the original audio is kept, both editions emit the
  \<^verbatim>\<open>-filter_complex\<close> graph that mixes the original audio at gain 0.3 with the new audio
  at gain 1.0 (\<^verbatim>\<open>amix\<close>, \<^verbatim>\<open>duration=shortest\<close>). The professional edition gives
  \<^verbatim>\<open>-c:v\<close> the chosen video codec, so the video is copied exactly when that codec is
  \<^verbatim>\<open>copy\<close>; the Windows edition always copies the video stream.
\<close>

theorem mix_mode_command:
  assumes "\<not> mute_original w" and "\<not> mute_original v"
  shows "has_option ''-filter_complex''
           ''[0:a]volume=0.3[original];[1:a]volume=1.0[new];[original][new]amix=inputs=2:duration=shortest''
           (build_ffmpeg_command w tmp)
       \<and> has_option ''-c:v'' (video_codec (export_settings w)) (build_ffmpeg_command w tmp)
       \<and> (video_stream_copy (build_ffmpeg_command w tmp)
             \<longleftrightarrow> video_codec (export_settings w) = ''copy'')
       \<and> has_option ''-filter_complex''
           ''[0:a]volume=0.3[original];[1:a]volume=1.0[new];[original][new]amix=inputs=2:duration=shortest''
           (build_command_v2 v tmp')
       \<and> video_stream_copy (build_command_v2 v tmp')"
  using mix_pro [OF assms(1), of tmp] mix_v2 [OF assms(2), of tmp']
  by blast

theorem mix_mode_command_witness:
  "has_option ''-filter_complex''
           ''[0:a]volume=0.3[original];[1:a]volume=1.0[new];[original][new]amix=inputs=2:duration=shortest''
           (build_ffmpeg_command
      \<lparr> video_path = ''in.mp4'', audio_path = ''new.wav'', output_path = ''out.mp4'',
        offset = 0, mute_original = False, export_settings = default_settings \<rparr>
      ''tmp.wav'')
   \<and> has_option ''-c:v'' ''libx264'' (build_ffmpeg_command
      \<lparr> video_path = ''in.mp4'', audio_path = ''new.wav'', output_path = ''out.mp4'',
        offset = 0, mute_original = False, export_settings = default_settings \<rparr>
      ''tmp.wav'')
   \<and> \<not> video_stream_copy (build_ffmpeg_command
      \<lparr> video_path = ''in.mp4'', audio_path = ''new.wav'', output_path = ''out.mp4'',
        offset = 0, mute_original = False, export_settings = default_settings \<rparr>
      ''tmp.wav'')
   \<and> has_option ''-filter_complex''
           ''[0:a]volume=0.3[original];[1:a]volume=1.0[new];[original][new]amix=inputs=2:duration=shortest''
           (build_command_v2
      \<lparr> video_path = ''in.mp4'', audio_path = ''new.wav'', output_path = ''out.mp4'',
        offset = 0, mute_original = False \<rparr>
      ''tmp.wav'')
   \<and> video_stream_copy (build_command_v2
      \<lparr> video_path = ''in.mp4'', audio_path = ''new.wav'', output_path = ''out.mp4'',
        offset = 0, mute_original = False \<rparr>
      ''tmp.wav'')"
  using mix_mode_command [of "
      \<lparr> video_path = ''in.mp4'', audio_path = ''new.wav'', output_path = ''out.mp4'',
        offset = 0, mute_original = False, export_settings = default_settings \<rparr>
     " "
      \<lparr> video_path = ''in.mp4'', audio_path = ''new.wav'', output_path = ''out.mp4'',
        offset = 0, mute_original = False \<rparr>
     " "''tmp.wav''" "''tmp.wav''"]
  by (simp add: default_settings_def)

text \<open>
  The claim as the specification words it fails in the Windows edition, whose Mix command
  carries \<^verbatim>\<open>-c:v copy\<close>.
\<close>

theorem mix_v2_copies_video:
  "build_command_v2
      \<lparr> video_path = ''in.mp4'', audio_path = ''new.wav'', output_path = ''out.mp4'',
        offset = 0, mute_original = False \<rparr>
      ''tmp.wav'' =
     [''ffmpeg'', ''-i'', ''in.mp4'', ''-i'', ''tmp.wav'', ''-filter_complex'',
           ''[0:a]volume=0.3[original];[1:a]volume=1.0[new];[original][new]amix=inputs=2:duration=shortest''
          ,
      ''-c:v'', ''copy'', ''-c:a'', ''aac'', ''-b:a'', ''192k'', ''-map'', ''0:v:0'',
      ''-y'', ''out.mp4'']
   \<and> video_stream_copy (build_command_v2
      \<lparr> video_path = ''in.mp4'', audio_path = ''new.wav'', output_path = ''out.mp4'',
        offset = 0, mute_original = False \<rparr>
      ''tmp.wav'')"
  by (simp add: build_command_v2_def audio_filter_def has_option_def video_stream_copy_def)

section \<open>Properties of the export flow\<close>





subsection \<open>The message of an encoding failure\<close>




subsection \<open>The scratch file\<close>

text \<open>
  Claim C8 fails on the paths that leave \<^verbatim>\<open>run\<close> before the monitoring loop has ended.
  \<^verbatim>\<open>os.unlink\<close> follows the loop, so an exception of \<^verbatim>\<open>apply_offset_to_audio\<close> (here
  the external audio cannot be decoded) or of \<^verbatim>\<open>subprocess.Popen\<close> (the tool is not
  installed) reaches the handler with the scratch file still on disk, in both editions.
\<close>

theorem scratch_file_left_behind:
  "run
      \<lparr> tempfile_result = Inr ''/tmp/tmpk3v9.wav'', load_result = Inl ''cannot decode'',
        write_error = None, popen_error = None, stderr_text = [],
        eof_polls = 0, return_code = 0, unlink_ok = True \<rparr>
      \<lparr> video_path = ''in.mp4'', audio_path = ''new.wav'', output_path = ''out.mp4'',
        offset = 0, mute_original = True, export_settings = default_settings \<rparr>
   = \<lparr> emitted = [Progress 10 ''Preparing files...'', Progress 30 ''Applying audio offset...'',
                   Error ''Failed to apply offset: cannot decode''],
       scratch_exists = True \<rparr>
   \<and> run_v2
      \<lparr> tempfile_result = Inr ''/tmp/tmpk3v9.wav'', load_result = Inl ''cannot decode'',
        write_error = None, popen_error = None, stderr_text = [],
        eof_polls = 0, return_code = 0, unlink_ok = True \<rparr>
      \<lparr> video_path = ''in.mp4'', audio_path = ''new.wav'', output_path = ''out.mp4'',
        offset = 0, mute_original = True \<rparr>
   = \<lparr> emitted = [Progress 10 ''Preparing files...'', Progress 30 ''Applying audio offset...'',
                   Error ''Failed to apply offset: cannot decode''],
       scratch_exists = True \<rparr>
   \<and> run
      \<lparr> tempfile_result = Inr ''/tmp/tmpk3v9.wav'', load_result = Inr ([1, 2, 3], 22050),
        write_error = None, popen_error = Some ''[Errno 2] No such file or directory'',
        stderr_text = [], eof_polls = 0, return_code = 0, unlink_ok = True \<rparr>
      \<lparr> video_path = ''in.mp4'', audio_path = ''new.wav'', output_path = ''out.mp4'',
        offset = 0, mute_original = True, export_settings = default_settings \<rparr>
   = \<lparr> emitted = [Progress 10 ''Preparing files...'', Progress 30 ''Applying audio offset...'',
                   Progress 50 ''Encoding video (this may take a while)...'',
                   Error ''[Errno 2] No such file or directory''],
       scratch_exists = True \<rparr>"
  by (simp add: run_def run_v2_def export_flow_def apply_offset_to_audio_def shift_audio_def
      Let_def del: monitor_loop.simps)

end
